theory Spec2Isabelle
  imports Main
begin

section \<open>The observable world\<close>

text \<open>
  Every operation of \<^verbatim>\<open>sistema_unificado.py\<close> only prints. The world is therefore the
  sequence of what has happened so far, together with the allocator of object
  identities. Besides each printed line, the trace records the entry of every method
  (receiver identity, method, arguments); this bookkeeping is not printed by the program,
  it is kept so that "who was invoked, how often and with what" can be stated.

  A Python \<^verbatim>\<open>str\<close> is a sequence of code points; it is modelled as a \<open>string\<close> with
  one \<open>char\<close> per code point, so the letter o-acute (U+00F3) of the source's literals is
  the single character \<open>CHR 0xF3\<close>. Amounts are Python integers (\<open>int\<close>).
\<close>

type_synonym ref = nat

datatype call =
    Pay int
  | Send_payment int
  | Process_billing string int
  | Generate string int
  | Save_invoice string int
  | Send string
  | Render int
  | Add ref
  | Read
  | Write

datatype event = Print string | Call ref call

text \<open>
  The fields of a user-interface object. A \<^verbatim>\<open>Panel\<close> is the one object of the program
  that is mutated after its construction (\<^verbatim>\<open>add\<close> appends to \<^verbatim>\<open>self.children\<close>), and
  its children are references to other objects, so user-interface objects live in a
  store, addressed by identity.
\<close>

datatype UIComponent = Button string | TextField string | Panel "ref list"

record world =
  trace :: "event list"
  next_ref :: ref
  store :: "ref \<Rightarrow> UIComponent option"

definition print :: "string \<Rightarrow> world \<Rightarrow> world" where
  "print line w = w\<lparr>trace := trace w @ [Print line]\<rparr>"

definition enter :: "ref \<Rightarrow> call \<Rightarrow> world \<Rightarrow> world" where
  "enter self c w = w\<lparr>trace := trace w @ [Call self c]\<rparr>"

text \<open>Object creation hands out the next unused identity.\<close>

definition new :: "world \<Rightarrow> ref \<times> world" where
  "new w = (next_ref w, w\<lparr>next_ref := Suc (next_ref w)\<rparr>)"

text \<open>The lines written to standard output, in order.\<close>

fun stdout :: "event list \<Rightarrow> string list" where
  "stdout [] = []"
| "stdout (Print line # es) = line # stdout es"
| "stdout (Call r c # es) = stdout es"

text \<open>The method entries on one receiver, in order.\<close>

fun calls_on :: "ref \<Rightarrow> event list \<Rightarrow> call list" where
  "calls_on r [] = []"
| "calls_on r (Print line # es) = calls_on r es"
| "calls_on r (Call r' c # es) = (if r' = r then c # calls_on r es else calls_on r es)"

text \<open>
  \<^verbatim>\<open>f"{amount}"\<close> of an integer is its decimal numeral, with a leading minus sign when
  negative.
\<close>

function str_nat :: "nat \<Rightarrow> string" where
  "str_nat n =
     (if n < 10 then [''0123456789'' ! n]
      else str_nat (n div 10) @ [''0123456789'' ! (n mod 10)])"
  by pat_completeness auto
termination
  by (relation "measure id") auto

definition str_int :: "int \<Rightarrow> string" where
  "str_int i = (if i < 0 then CHR ''-'' # str_nat (nat (- i)) else str_nat (nat i))"


section \<open>Adapter\<close>

datatype ExternalPaymentAPI = ExternalPaymentAPI ref

datatype PaymentAdapter = PaymentAdapter ref ExternalPaymentAPI

definition ExternalPaymentAPI_init :: "world \<Rightarrow> ExternalPaymentAPI \<times> world" where
  "ExternalPaymentAPI_init w = (let (self, w) = new w in (ExternalPaymentAPI self, w))"

definition PaymentAdapter_init :: "ExternalPaymentAPI \<Rightarrow> world \<Rightarrow> PaymentAdapter \<times> world" where
  "PaymentAdapter_init external_api w =
     (let (self, w) = new w in (PaymentAdapter self external_api, w))"

fun send_payment :: "ExternalPaymentAPI \<Rightarrow> int \<Rightarrow> world \<Rightarrow> world" where
  "send_payment (ExternalPaymentAPI self) amount w =
     (let w = enter self (Send_payment amount) w
      in print (''[API Externa] Pago enviado por $'' @ str_int amount) w)"

fun pay :: "PaymentAdapter \<Rightarrow> int \<Rightarrow> world \<Rightarrow> world" where
  "pay (PaymentAdapter self external_api) amount w =
     (let w = enter self (Pay amount) w;
          w = print ''[Adapter] Adaptando interfaz interna a API externa...'' w
      in send_payment external_api amount w)"


section \<open>Facade\<close>

datatype InvoiceGenerator = InvoiceGenerator ref

datatype Database = Database ref

datatype MessageSender = MessageSender ref

datatype BillingFacade = BillingFacade ref InvoiceGenerator Database MessageSender

definition InvoiceGenerator_init :: "world \<Rightarrow> InvoiceGenerator \<times> world" where
  "InvoiceGenerator_init w = (let (self, w) = new w in (InvoiceGenerator self, w))"

definition Database_init :: "world \<Rightarrow> Database \<times> world" where
  "Database_init w = (let (self, w) = new w in (Database self, w))"

definition MessageSender_init :: "world \<Rightarrow> MessageSender \<times> world" where
  "MessageSender_init w = (let (self, w) = new w in (MessageSender self, w))"

definition BillingFacade_init :: "world \<Rightarrow> BillingFacade \<times> world" where
  "BillingFacade_init w =
     (let (self, w) = new w;
          (generator, w) = InvoiceGenerator_init w;
          (database, w) = Database_init w;
          (sender, w) = MessageSender_init w
      in (BillingFacade self generator database sender, w))"

fun generate :: "InvoiceGenerator \<Rightarrow> string \<Rightarrow> int \<Rightarrow> world \<Rightarrow> world" where
  "generate (InvoiceGenerator self) user amount w =
     (let w = enter self (Generate user amount) w
      in print (''[Factura] Generando factura para '' @ user @ '' por $'' @ str_int amount) w)"

fun save_invoice :: "Database \<Rightarrow> string \<Rightarrow> int \<Rightarrow> world \<Rightarrow> world" where
  "save_invoice (Database self) user amount w =
     (let w = enter self (Save_invoice user amount) w
      in print (''[BD] Guardando factura de '' @ user @ '' por $'' @ str_int amount) w)"

fun MessageSender_send :: "MessageSender \<Rightarrow> string \<Rightarrow> world \<Rightarrow> world" where
  "MessageSender_send (MessageSender self) message w =
     (let w = enter self (Send message) w
      in print (''[Mensaje] Enviado: '' @ message) w)"

fun process_billing :: "BillingFacade \<Rightarrow> string \<Rightarrow> int \<Rightarrow> world \<Rightarrow> world" where
  "process_billing (BillingFacade self generator database sender) user amount w =
     (let w = enter self (Process_billing user amount) w;
          w = print (''[Fachada] Procesando facturaci'' @ [CHR 0xF3] @ ''n...'') w;
          w = generate generator user amount w;
          w = save_invoice database user amount w
      in MessageSender_send sender
           (''Factura generada para '' @ user @ '' por $'' @ str_int amount) w)"


section \<open>Decorator\<close>

datatype MessageComponent =
    BasicMessage ref
  | EncryptionDecorator ref MessageComponent
  | CompressionDecorator ref MessageComponent

definition BasicMessage_init :: "world \<Rightarrow> MessageComponent \<times> world" where
  "BasicMessage_init w = (let (self, w) = new w in (BasicMessage self, w))"

definition EncryptionDecorator_init ::
  "MessageComponent \<Rightarrow> world \<Rightarrow> MessageComponent \<times> world" where
  "EncryptionDecorator_init component w =
     (let (self, w) = new w in (EncryptionDecorator self component, w))"

definition CompressionDecorator_init ::
  "MessageComponent \<Rightarrow> world \<Rightarrow> MessageComponent \<times> world" where
  "CompressionDecorator_init component w =
     (let (self, w) = new w in (CompressionDecorator self component, w))"

text \<open>\<^verbatim>\<open>message[::-1]\<close> is \<open>rev\<close>, \<^verbatim>\<open>message[:10]\<close> is \<open>take 10\<close>.\<close>

fun send :: "MessageComponent \<Rightarrow> string \<Rightarrow> world \<Rightarrow> world" where
  "send (BasicMessage self) message w =
     (let w = enter self (Send message) w
      in print (''[Mensaje] '' @ message) w)"
| "send (EncryptionDecorator self component) message w =
     (let w = enter self (Send message) w;
          encrypted = ''<encriptado>'' @ rev message @ ''</encriptado>''
      in send component encrypted w)"
| "send (CompressionDecorator self component) message w =
     (let w = enter self (Send message) w;
          compressed = ''<comprimido>'' @ take 10 message @ ''...</comprimido>''
      in send component compressed w)"


section \<open>Composite\<close>

text \<open>
  A call can fail in two ways: the receiver has no such method (it is not in the store,
  or \<^verbatim>\<open>add\<close> is called on a leaf), or the nesting of \<^verbatim>\<open>render\<close> calls exceeds the
  depth the caller allows. The second is how a run that never returns shows up: on a
  panel that contains itself, every bound is exceeded.
\<close>

datatype error = AttributeError | DepthExceeded

definition and_then :: "error + 'a \<Rightarrow> ('a \<Rightarrow> error + 'b) \<Rightarrow> error + 'b" where
  "and_then r f = (case r of Inl e \<Rightarrow> Inl e | Inr x \<Rightarrow> f x)"

definition allocate :: "UIComponent \<Rightarrow> world \<Rightarrow> ref \<times> world" where
  "allocate obj w = (let (self, w) = new w in (self, w\<lparr>store := (store w)(self \<mapsto> obj)\<rparr>))"

definition Button_init :: "string \<Rightarrow> world \<Rightarrow> ref \<times> world" where
  "Button_init label w = allocate (Button label) w"

definition TextField_init :: "string \<Rightarrow> world \<Rightarrow> ref \<times> world" where
  "TextField_init name w = allocate (TextField name) w"

definition Panel_init :: "world \<Rightarrow> ref \<times> world" where
  "Panel_init w = allocate (Panel []) w"

definition add :: "ref \<Rightarrow> ref \<Rightarrow> world \<Rightarrow> error + world" where
  "add self component w =
     (case store w self of
        Some (Panel children) \<Rightarrow>
          (let w = enter self (Add component) w
           in Inr (w\<lparr>store := (store w)(self \<mapsto> Panel (children @ [component]))\<rparr>))
      | _ \<Rightarrow> Inl AttributeError)"

text \<open>\<^verbatim>\<open>" " * depth\<close> is the empty string when \<^verbatim>\<open>depth\<close> is negative.\<close>

definition indent :: "int \<Rightarrow> string" where
  "indent depth = replicate (nat depth) CHR '' ''"

text \<open>
  The first argument of \<open>render\<close> bounds the nesting of calls; \<open>render_children\<close> is
  the \<^verbatim>\<open>for c in self.children\<close> loop of \<^verbatim>\<open>Panel.render\<close>.
\<close>

fun render :: "nat \<Rightarrow> ref \<Rightarrow> int \<Rightarrow> world \<Rightarrow> error + world"
  and render_children :: "nat \<Rightarrow> ref list \<Rightarrow> int \<Rightarrow> world \<Rightarrow> error + world" where
  "render 0 self depth w = Inl DepthExceeded"
| "render (Suc n) self depth w =
     (case store w self of
        None \<Rightarrow> Inl AttributeError
      | Some (Button label) \<Rightarrow>
          (let w = enter self (Render depth) w
           in Inr (print (indent depth @ ''[Bot'' @ [CHR 0xF3] @ ''n: '' @ label @ '']'') w))
      | Some (TextField name) \<Rightarrow>
          (let w = enter self (Render depth) w
           in Inr (print (indent depth @ ''[Campo de Texto: '' @ name @ '']'') w))
      | Some (Panel children) \<Rightarrow>
          (let w = enter self (Render depth) w;
               w = print (indent depth @ ''[Panel]'') w
           in render_children n children (depth + 2) w))"
| "render_children n [] depth w = Inr w"
| "render_children n (c # cs) depth w =
     (case render n c depth w of
        Inl e \<Rightarrow> Inl e
      | Inr w \<Rightarrow> render_children n cs depth w)"


section \<open>Proxy\<close>

datatype RealDatabase = RealDatabase ref

datatype DatabaseProxy = DatabaseProxy ref string RealDatabase

definition RealDatabase_init :: "world \<Rightarrow> RealDatabase \<times> world" where
  "RealDatabase_init w = (let (self, w) = new w in (RealDatabase self, w))"

definition DatabaseProxy_init :: "string \<Rightarrow> world \<Rightarrow> DatabaseProxy \<times> world" where
  "DatabaseProxy_init user_type w =
     (let (self, w) = new w;
          (database, w) = RealDatabase_init w
      in (DatabaseProxy self user_type database, w))"

fun RealDatabase_read :: "RealDatabase \<Rightarrow> world \<Rightarrow> world" where
  "RealDatabase_read (RealDatabase self) w =
     (let w = enter self Read w in print ''[BD] Leyendo datos...'' w)"

fun RealDatabase_write :: "RealDatabase \<Rightarrow> world \<Rightarrow> world" where
  "RealDatabase_write (RealDatabase self) w =
     (let w = enter self Write w in print ''[BD] Escribiendo datos...'' w)"

fun DatabaseProxy_read :: "DatabaseProxy \<Rightarrow> world \<Rightarrow> world" where
  "DatabaseProxy_read (DatabaseProxy self user_type database) w =
     (let w = enter self Read w;
          w = print (''[Proxy] Usuario '' @ [CHR 0x27] @ user_type @ [CHR 0x27]
                     @ '' accediendo a lectura.'') w
      in RealDatabase_read database w)"

fun DatabaseProxy_write :: "DatabaseProxy \<Rightarrow> world \<Rightarrow> world" where
  "DatabaseProxy_write (DatabaseProxy self user_type database) w =
     (let w = enter self Write w
      in if user_type = ''admin'' then
           (let w = print (''[Proxy] Usuario '' @ [CHR 0x27] @ user_type @ [CHR 0x27]
                           @ '' escribiendo...'') w
            in RealDatabase_write database w)
         else print ''[Proxy] Acceso denegado para escritura.'' w)"


section \<open>Notions used to state the properties\<close>

text \<open>The world before anything has happened.\<close>

definition initial :: world where
  "initial = \<lparr>trace = [], next_ref = 0, store = (\<lambda>r. None)\<rparr>"

subsection \<open>Decorator chains\<close>

text \<open>
  A chain is described by its layers, outermost first; \<open>transform\<close> is what one layer does
  to the text before handing it inwards, \<open>fold transform\<close> applies the layers in list
  order, so the head of the list (the outermost layer) acts first.
\<close>

datatype layer = Encryption | Compression

fun transform :: "layer \<Rightarrow> string \<Rightarrow> string" where
  "transform Encryption message = ''<encriptado>'' @ rev message @ ''</encriptado>''"
| "transform Compression message = ''<comprimido>'' @ take 10 message @ ''...</comprimido>''"

fun layers :: "MessageComponent \<Rightarrow> layer list" where
  "layers (BasicMessage self) = []"
| "layers (EncryptionDecorator self component) = Encryption # layers component"
| "layers (CompressionDecorator self component) = Compression # layers component"

fun oid :: "MessageComponent \<Rightarrow> ref" where
  "oid (BasicMessage self) = self"
| "oid (EncryptionDecorator self component) = self"
| "oid (CompressionDecorator self component) = self"

text \<open>
  Wrapping the base sender first in a compression layer and then in an encryption layer,
  as three successive constructor calls, and the same with the two layers swapped (the
  order of the demonstration script).
\<close>

definition compression_then_encryption :: "world \<Rightarrow> MessageComponent \<times> world" where
  "compression_then_encryption w =
     (let (message, w) = BasicMessage_init w;
          (compressed, w) = CompressionDecorator_init message w
      in EncryptionDecorator_init compressed w)"

definition encryption_then_compression :: "world \<Rightarrow> MessageComponent \<times> world" where
  "encryption_then_compression w =
     (let (message, w) = BasicMessage_init w;
          (encrypted, w) = EncryptionDecorator_init message w
      in CompressionDecorator_init encrypted w)"

subsection \<open>User-interface trees\<close>

text \<open>
  A finite tree of user-interface nodes, as a value. \<open>shape s r t\<close> says that what is
  reachable from the reference \<open>r\<close> in the store \<open>s\<close> unfolds to the tree \<open>t\<close>. Such a
  tree exists exactly when no panel reachable from \<open>r\<close> is its own descendant; an object
  reachable along several paths occurs in the tree once per path.
\<close>

datatype ui_tree = ButtonT string | TextFieldT string | PanelT "ui_tree list"

fun shape :: "(ref \<Rightarrow> UIComponent option) \<Rightarrow> ref \<Rightarrow> ui_tree \<Rightarrow> bool"
  and shapes :: "(ref \<Rightarrow> UIComponent option) \<Rightarrow> ref list \<Rightarrow> ui_tree list \<Rightarrow> bool" where
  "shape s r (ButtonT label) = (s r = Some (Button label))"
| "shape s r (TextFieldT name) = (s r = Some (TextField name))"
| "shape s r (PanelT ts) = (case s r of Some (Panel children) \<Rightarrow> shapes s children ts | _ \<Rightarrow> False)"
| "shapes s [] [] = True"
| "shapes s (c # cs) (t # ts) = (shape s c t \<and> shapes s cs ts)"
| "shapes s [] (t # ts) = False"
| "shapes s (c # cs) [] = False"

text \<open>Number of nodes, and number of levels below the root.\<close>

fun nodes :: "ui_tree \<Rightarrow> nat" where
  "nodes (ButtonT label) = 1"
| "nodes (TextFieldT name) = 1"
| "nodes (PanelT ts) = Suc (sum_list (map nodes ts))"

fun height :: "ui_tree \<Rightarrow> nat" where
  "height (ButtonT label) = 0"
| "height (TextFieldT name) = 0"
| "height (PanelT ts) = Suc (foldr (\<lambda>t m. max (height t) m) ts 0)"

text \<open>
  The pre-order, depth-first, insertion-order listing of a tree, written after the
  specification: a leaf is one line at its depth, a panel is its own line at its depth
  followed by the listings of its children, in order, two units deeper.
\<close>

fun preorder :: "ui_tree \<Rightarrow> int \<Rightarrow> string list" where
  "preorder (ButtonT label) depth = [indent depth @ ''[Bot'' @ [CHR 0xF3] @ ''n: '' @ label @ '']'']"
| "preorder (TextFieldT name) depth = [indent depth @ ''[Campo de Texto: '' @ name @ '']'']"
| "preorder (PanelT ts) depth =
     (indent depth @ ''[Panel]'') # concat (map (\<lambda>t. preorder t (depth + 2)) ts)"

text \<open>
  The panel of the demonstration script: a root panel holding the button "Pagar" and a
  second panel, which holds the text fields "Nombre" and "Correo".
\<close>

definition composite_demo :: "world \<Rightarrow> error + ref \<times> world" where
  "composite_demo w =
     (let (main_panel, w) = Panel_init w;
          (button, w) = Button_init ''Pagar'' w
      in and_then (add main_panel button w) (\<lambda>w.
         let (sub_panel, w) = Panel_init w;
             (nombre, w) = TextField_init ''Nombre'' w
         in and_then (add sub_panel nombre w) (\<lambda>w.
            let (correo, w) = TextField_init ''Correo'' w
            in and_then (add sub_panel correo w) (\<lambda>w.
               and_then (add main_panel sub_panel w) (\<lambda>w. Inr (main_panel, w))))))"

definition pagar_tree :: ui_tree where
  "pagar_tree = PanelT [ButtonT ''Pagar'', PanelT [TextFieldT ''Nombre'', TextFieldT ''Correo'']]"


section \<open>Basic facts about the world\<close>

lemma stdout_append: "stdout (xs @ ys) = stdout xs @ stdout ys"
  by (induction xs rule: stdout.induct) simp_all

lemma calls_on_append: "calls_on r (xs @ ys) = calls_on r xs @ calls_on r ys"
  by (induction r xs rule: calls_on.induct) simp_all

lemma trace_print: "trace (print line w) = trace w @ [Print line]"
  by (simp add: print_def)

lemma trace_enter: "trace (enter self c w) = trace w @ [Call self c]"
  by (simp add: enter_def)

lemma store_print: "store (print line w) = store w"
  by (simp add: print_def)

lemma store_enter: "store (enter self c w) = store w"
  by (simp add: enter_def)

lemma next_ref_print: "next_ref (print line w) = next_ref w"
  by (simp add: print_def)

lemma next_ref_enter: "next_ref (enter self c w) = next_ref w"
  by (simp add: enter_def)


section \<open>Adapter and facade\<close>

text \<open>
  C6. For every amount (so for every amount \<open>a \<ge> 0\<close>), \<^verbatim>\<open>PaymentAdapter.pay(a)\<close> changes
  the world by exactly this: it emits the adaptation notice, and then the wrapped
  external object's \<^verbatim>\<open>send_payment\<close> is entered once, with the same amount, and prints
  its line. Nothing else is touched, and \<open>pay\<close> yields nothing but the new world (the
  method returns \<^verbatim>\<open>None\<close>).
\<close>

theorem pay_invokes_send_payment_once:
  "pay (PaymentAdapter self (ExternalPaymentAPI api)) amount w =
     w\<lparr>trace := trace w @
        [Call self (Pay amount),
         Print ''[Adapter] Adaptando interfaz interna a API externa...'',
         Call api (Send_payment amount),
         Print (''[API Externa] Pago enviado por $'' @ str_int amount)]\<rparr>"
  by (simp add: print_def enter_def)

text \<open>
  C7. For every user and amount, \<^verbatim>\<open>process_billing\<close> enters the invoice generator, then
  the database, then the message sender, once each and in this order, with no condition
  on the way.
\<close>

theorem process_billing_fixed_order:
  "process_billing
     (BillingFacade self (InvoiceGenerator g) (Database d) (MessageSender s)) user amount w =
     w\<lparr>trace := trace w @
        [Call self (Process_billing user amount),
         Print (''[Fachada] Procesando facturaci'' @ [CHR 0xF3] @ ''n...''),
         Call g (Generate user amount),
         Print (''[Factura] Generando factura para '' @ user @ '' por $'' @ str_int amount),
         Call d (Save_invoice user amount),
         Print (''[BD] Guardando factura de '' @ user @ '' por $'' @ str_int amount),
         Call s (Send (''Factura generada para '' @ user @ '' por $'' @ str_int amount)),
         Print (''[Mensaje] Enviado: Factura generada para '' @ user @ '' por $''
                @ str_int amount)]\<rparr>"
  by (simp add: print_def enter_def)


section \<open>Proxy: access control\<close>

text \<open>
  C5. For every proxy with role \<open>user_type\<close>: \<^verbatim>\<open>write()\<close> prints its logging line and then
  enters the real database's \<^verbatim>\<open>write\<close> when the role is \<^verbatim>\<open>"admin"\<close>, and for every other
  role prints the denial line and enters nothing; in both cases it returns normally.
  \<^verbatim>\<open>read()\<close> prints the access line naming the role and then enters the real database's
  \<^verbatim>\<open>read\<close>, whatever the role.
\<close>

theorem proxy_access_control:
  "trace (DatabaseProxy_write (DatabaseProxy self user_type (RealDatabase db)) w) =
     trace w @
       (if user_type = ''admin'' then
          [Call self Write,
           Print (''[Proxy] Usuario '' @ [CHR 0x27] @ user_type @ [CHR 0x27]
                  @ '' escribiendo...''),
           Call db Write,
           Print ''[BD] Escribiendo datos...'']
        else
          [Call self Write,
           Print ''[Proxy] Acceso denegado para escritura.''])
   \<and> trace (DatabaseProxy_read (DatabaseProxy self user_type (RealDatabase db)) w) =
     trace w @
       [Call self Read,
        Print (''[Proxy] Usuario '' @ [CHR 0x27] @ user_type @ [CHR 0x27]
               @ '' accediendo a lectura.''),
        Call db Read,
        Print ''[BD] Leyendo datos...'']"
  by (simp add: print_def enter_def)


section \<open>Decorator chains\<close>

lemma send_enters_receiver:
  "\<exists>rest. trace (send c message w) = trace w @ Call (oid c) (Send message) # rest"
proof (induction c arbitrary: message w)
  case (BasicMessage self)
  show ?case by (simp add: print_def enter_def)
next
  case (EncryptionDecorator self c)
  obtain rest where
    "trace (send c (''<encriptado>'' @ rev message @ ''</encriptado>'')
              (enter self (Send message) w))
       = trace (enter self (Send message) w)
         @ Call (oid c) (Send (''<encriptado>'' @ rev message @ ''</encriptado>'')) # rest"
    using EncryptionDecorator.IH by blast
  then show ?case by (simp add: enter_def)
next
  case (CompressionDecorator self c)
  obtain rest where
    "trace (send c (''<comprimido>'' @ take 10 message @ ''...</comprimido>'')
              (enter self (Send message) w))
       = trace (enter self (Send message) w)
         @ Call (oid c) (Send (''<comprimido>'' @ take 10 message @ ''...</comprimido>'')) # rest"
    using CompressionDecorator.IH by blast
  then show ?case by (simp add: enter_def)
qed

lemma send_stdout:
  "stdout (trace (send c message w)) =
     stdout (trace w) @ [''[Mensaje] '' @ fold transform (layers c) message]"
  by (induction c arbitrary: message w) (simp_all add: print_def enter_def stdout_append)

lemma compression_then_encryption_value:
  "fst (compression_then_encryption w) =
     EncryptionDecorator (Suc (Suc (next_ref w)))
       (CompressionDecorator (Suc (next_ref w)) (BasicMessage (next_ref w)))"
  by (simp add: compression_then_encryption_def BasicMessage_init_def
      CompressionDecorator_init_def EncryptionDecorator_init_def new_def)

lemma encryption_then_compression_value:
  "fst (encryption_then_compression w) =
     CompressionDecorator (Suc (Suc (next_ref w)))
       (EncryptionDecorator (Suc (next_ref w)) (BasicMessage (next_ref w)))"
  by (simp add: encryption_then_compression_def BasicMessage_init_def
      CompressionDecorator_init_def EncryptionDecorator_init_def new_def)

lemma hello_compression_then_encryption:
  "stdout (trace (send (fst (compression_then_encryption w0)) ''HELLO WORLD'' w)) =
     stdout (trace w) @ [''[Mensaje] <comprimido><encriptad...</comprimido>'']"
  by (simp add: compression_then_encryption_value send_stdout del: send.simps)

lemma hello_encryption_then_compression:
  "stdout (trace (send (fst (encryption_then_compression w0)) ''HELLO WORLD'' w)) =
     stdout (trace w)
     @ [''[Mensaje] <encriptado>>odimirpmoc/<...LROW OLLEH>odimirpmoc<</encriptado>'']"
  by (simp add: encryption_then_compression_value send_stdout del: send.simps)

text \<open>
  C1. Each decorator transforms its input and hands the result to the component it
  wraps, so for every chain the text printed by the base sender is the input after the
  layers' transformations, the outermost applied first. When the base sender is wrapped
  in a compression layer and that in an encryption layer, \<^verbatim>\<open>"HELLO WORLD"\<close> is first
  reversed as a whole and tagged by the encryption layer, and the compression layer then
  keeps the first ten characters of that encrypted text; with the two layers swapped the
  base sender receives a different text.
\<close>

theorem decorators_apply_outermost_first:
  "send (EncryptionDecorator self component) message w =
     send component (transform Encryption message) (enter self (Send message) w)
   \<and> send (CompressionDecorator self component) message w =
     send component (transform Compression message) (enter self (Send message) w)
   \<and> stdout (trace (send c message w)) =
     stdout (trace w) @ [''[Mensaje] '' @ fold transform (layers c) message]
   \<and> stdout (trace (send (fst (compression_then_encryption w0)) ''HELLO WORLD'' w)) =
     stdout (trace w)
     @ [''[Mensaje] <comprimido>'' @ take 10 (''<encriptado>'' @ rev ''HELLO WORLD''
          @ ''</encriptado>'') @ ''...</comprimido>'']
   \<and> stdout (trace (send (fst (compression_then_encryption w0)) ''HELLO WORLD'' w)) =
     stdout (trace w) @ [''[Mensaje] <comprimido><encriptad...</comprimido>'']
   \<and> stdout (trace (send (fst (encryption_then_compression w0)) ''HELLO WORLD'' w)) =
     stdout (trace w)
     @ [''[Mensaje] <encriptado>>odimirpmoc/<...LROW OLLEH>odimirpmoc<</encriptado>'']
   \<and> stdout (trace (send (fst (compression_then_encryption w0)) ''HELLO WORLD'' w)) \<noteq>
     stdout (trace (send (fst (encryption_then_compression w0)) ''HELLO WORLD'' w))"
proof -
  have step_e: "send (EncryptionDecorator self component) message w =
      send component (transform Encryption message) (enter self (Send message) w)"
    by simp
  have step_c: "send (CompressionDecorator self component) message w =
      send component (transform Compression message) (enter self (Send message) w)"
    by simp
  have ten: "''<comprimido>'' @ take 10 (''<encriptado>'' @ rev ''HELLO WORLD''
          @ ''</encriptado>'') @ ''...</comprimido>'' = ''<comprimido><encriptad...</comprimido>''"
    by simp
  have differ: "stdout (trace (send (fst (compression_then_encryption w0)) ''HELLO WORLD'' w)) \<noteq>
     stdout (trace (send (fst (encryption_then_compression w0)) ''HELLO WORLD'' w))"
    unfolding hello_compression_then_encryption hello_encryption_then_compression by simp
  show ?thesis
    using step_e step_c send_stdout [of c message w]
      hello_compression_then_encryption [of w0 w]
      hello_encryption_then_compression [of w0 w] ten differ
    by (simp del: send.simps transform.simps)
qed

text \<open>
  C3, as stated, does not hold: the tag the encryption layer writes is
  \<^verbatim>\<open><encriptado>\<close>, not \<^verbatim>\<open><encrypted>\<close>. Sending \<^verbatim>\<open>"HELLO"\<close> through an encryption layer
  around the base sender does not print what handing
  \<^verbatim>\<open><encrypted>OLLEH</encrypted>\<close> to the base sender prints.
\<close>

theorem encryption_tag_counterexample:
  "stdout (trace (send (EncryptionDecorator 1 (BasicMessage 0)) ''HELLO'' initial))
     \<noteq> stdout (trace (send (BasicMessage 0) ''<encrypted>OLLEH</encrypted>''
                    (enter 1 (Send ''HELLO'') initial)))"
  by (simp add: print_def enter_def initial_def Let_def)

text \<open>
  C3, amended. For every input text, the encryption decorator's \<^verbatim>\<open>send\<close> reverses the
  character sequence of the input, wraps it as \<^verbatim>\<open><encriptado>{reversed}</encriptado>\<close>,
  and hands exactly that string to the wrapped component's \<^verbatim>\<open>send\<close>: the rest of its
  effect is that one call, and the next method entered is the wrapped component's
  \<^verbatim>\<open>send\<close> with that string.
\<close>

theorem encryption_send_delegates:
  "send (EncryptionDecorator self component) message w =
     send component (''<encriptado>'' @ rev message @ ''</encriptado>'')
       (enter self (Send message) w)
   \<and> (\<exists>rest. trace (send (EncryptionDecorator self component) message w) =
         trace w @ [Call self (Send message),
                    Call (oid component)
                      (Send (''<encriptado>'' @ rev message @ ''</encriptado>''))] @ rest)"
proof -
  obtain rest where
    "trace (send component (''<encriptado>'' @ rev message @ ''</encriptado>'')
              (enter self (Send message) w))
       = trace (enter self (Send message) w)
         @ Call (oid component) (Send (''<encriptado>'' @ rev message @ ''</encriptado>''))
           # rest"
    using send_enters_receiver by blast
  then show ?thesis by (simp add: enter_def)
qed

text \<open>
  C4, as stated, does not hold: the tag the compression layer writes is
  \<^verbatim>\<open><comprimido>\<close>, not \<^verbatim>\<open><compressed>\<close>. Sending \<^verbatim>\<open>"HELLO"\<close> through a compression layer
  around the base sender does not print what handing
  \<^verbatim>\<open><compressed>HELLO...</compressed>\<close> to the base sender prints.
\<close>

theorem compression_tag_counterexample:
  "stdout (trace (send (CompressionDecorator 1 (BasicMessage 0)) ''HELLO'' initial))
     \<noteq> stdout (trace (send (BasicMessage 0) ''<compressed>HELLO...</compressed>''
                    (enter 1 (Send ''HELLO'') initial)))"
  by (simp add: print_def enter_def initial_def Let_def)

text \<open>
  C4, amended. For every input text, the compression decorator's \<^verbatim>\<open>send\<close> takes the
  first ten characters of the input (all of it when it is shorter), wraps them as
  \<^verbatim>\<open><comprimido>{prefix}...</comprimido>\<close>, and hands exactly that string to the wrapped
  component's \<^verbatim>\<open>send\<close>: the rest of its effect is that one call, and the next method
  entered is the wrapped component's \<^verbatim>\<open>send\<close> with that string.
\<close>

theorem compression_send_delegates:
  "send (CompressionDecorator self component) message w =
     send component (''<comprimido>'' @ take 10 message @ ''...</comprimido>'')
       (enter self (Send message) w)
   \<and> (\<exists>rest. trace (send (CompressionDecorator self component) message w) =
         trace w @ [Call self (Send message),
                    Call (oid component)
                      (Send (''<comprimido>'' @ take 10 message @ ''...</comprimido>''))] @ rest)
   \<and> length (take 10 message) = min (length message) 10"
proof -
  obtain rest where
    "trace (send component (''<comprimido>'' @ take 10 message @ ''...</comprimido>'')
              (enter self (Send message) w))
       = trace (enter self (Send message) w)
         @ Call (oid component) (Send (''<comprimido>'' @ take 10 message @ ''...</comprimido>''))
           # rest"
    using send_enters_receiver by blast
  then show ?thesis by (simp add: enter_def)
qed


section \<open>Composite: rendering a tree\<close>

lemma height_child:
  "t \<in> set ts \<Longrightarrow> height t \<le> foldr (\<lambda>t m. max (height t) m) ts 0"
  by (induction ts) auto

text \<open>
  Rendering what is tree-shaped in the store, with a nesting bound above the height of
  the tree, returns normally, leaves store and allocator alone, and prints the pre-order
  listing of the tree.
\<close>

lemma render_shape:
  "shape (store w) r t \<Longrightarrow> height t < n \<Longrightarrow>
     \<exists>w'. render n r depth w = Inr w' \<and> store w' = store w \<and> next_ref w' = next_ref w
          \<and> stdout (trace w') = stdout (trace w) @ preorder t depth"
  and render_children_shapes:
  "shapes (store w) cs ts \<Longrightarrow> (\<forall>t \<in> set ts. height t < n) \<Longrightarrow>
     \<exists>w'. render_children n cs depth w = Inr w' \<and> store w' = store w
          \<and> next_ref w' = next_ref w
          \<and> stdout (trace w') = stdout (trace w) @ concat (map (\<lambda>t. preorder t depth) ts)"
proof (induction n r depth w and n cs depth w arbitrary: t and ts
    rule: render_render_children.induct)
  case (1 self depth w)
  then show ?case by simp
next
  case (2 n self depth w)
  show ?case
  proof (cases t)
    case (ButtonT label)
    with "2.prems" show ?thesis
      by (simp add: print_def enter_def stdout_append)
  next
    case (TextFieldT name)
    with "2.prems" show ?thesis
      by (simp add: print_def enter_def stdout_append)
  next
    case (PanelT ts)
    with "2.prems" obtain children where
      st: "store w self = Some (Panel children)" and sh: "shapes (store w) children ts"
      by (auto split: option.splits UIComponent.splits)
    from "2.prems" PanelT have hs: "\<forall>t \<in> set ts. height t < n"
      using height_child by fastforce
    let ?w = "print (indent depth @ ''[Panel]'') (enter self (Render depth) w)"
    have "shapes (store ?w) children ts"
      using sh by (simp add: store_print store_enter)
    from "2.IH" [OF st refl refl refl this hs]
    obtain w' where "render_children n children (depth + 2) ?w = Inr w'"
      "store w' = store ?w" "next_ref w' = next_ref ?w"
      "stdout (trace w') = stdout (trace ?w) @ concat (map (\<lambda>t. preorder t (depth + 2)) ts)"
      by blast
    then show ?thesis using st PanelT
      by (simp add: print_def enter_def stdout_append)
  qed
next
  case (3 n depth w)
  then show ?case by (cases ts) simp_all
next
  case (4 n c cs depth w)
  from "4.prems" obtain t ts' where ts: "ts = t # ts'" and sc: "shape (store w) c t"
    and scs: "shapes (store w) cs ts'"
    by (cases ts) auto
  from "4.prems" ts have ht: "height t < n" and hts: "\<forall>t \<in> set ts'. height t < n"
    by auto
  from "4.IH"(1) [OF sc ht] obtain w1 where
    r1: "render n c depth w = Inr w1" and s1: "store w1 = store w"
    and n1: "next_ref w1 = next_ref w"
    and o1: "stdout (trace w1) = stdout (trace w) @ preorder t depth"
    by blast
  from scs s1 have "shapes (store w1) cs ts'" by simp
  from "4.IH"(2) [OF r1 this hts] obtain w2 where
    "render_children n cs depth w1 = Inr w2" "store w2 = store w1"
    "next_ref w2 = next_ref w1"
    "stdout (trace w2) = stdout (trace w1) @ concat (map (\<lambda>t. preorder t depth) ts')"
    by blast
  then show ?case using r1 s1 n1 o1 ts by simp
qed

lemma length_preorder: "length (preorder t depth) = nodes t"
  by (induction t depth rule: preorder.induct)
     (simp_all add: length_concat comp_def cong: map_cong)

text \<open>
  Without the tree shape there is no such guarantee: on a panel that has been added to
  itself, every nesting bound is exceeded.
\<close>

lemma render_self_containing:
  "store w r = Some (Panel [r]) \<Longrightarrow> render n r depth w = Inl DepthExceeded"
  by (induction n arbitrary: depth w) (simp_all add: print_def enter_def)

lemmas init_defs = new_def allocate_def ExternalPaymentAPI_init_def PaymentAdapter_init_def
  InvoiceGenerator_init_def Database_init_def MessageSender_init_def BillingFacade_init_def
  BasicMessage_init_def EncryptionDecorator_init_def CompressionDecorator_init_def
  Button_init_def TextField_init_def Panel_init_def RealDatabase_init_def
  DatabaseProxy_init_def

text \<open>The composite part of the demonstration script, run from the initial world.\<close>

lemma composite_demo_initial:
  "composite_demo initial =
     Inr (0, \<lparr>trace = [Call 0 (Add 1), Call 2 (Add 3), Call 2 (Add 4), Call 0 (Add 2)],
              next_ref = 5,
              store = [0 \<mapsto> Panel [1, 2], 1 \<mapsto> Button ''Pagar'', 2 \<mapsto> Panel [3, 4],
                       3 \<mapsto> TextField ''Nombre'', 4 \<mapsto> TextField ''Correo'']\<rparr>)"
  by (simp add: composite_demo_def initial_def init_defs add_def and_then_def enter_def
      fun_eq_iff)

lemma shape_demo:
  "shape [0 \<mapsto> Panel [1, 2], 1 \<mapsto> Button ''Pagar'', 2 \<mapsto> Panel [3, 4],
          3 \<mapsto> TextField ''Nombre'', 4 \<mapsto> TextField ''Correo''] 0 pagar_tree"
  by (simp add: pagar_tree_def)

lemma height_demo: "height pagar_tree = 2"
  by (simp add: pagar_tree_def)

lemma nodes_demo: "nodes pagar_tree = 5"
  by (simp add: pagar_tree_def)

lemma preorder_demo:
  "preorder pagar_tree 0 =
     [''[Panel]'',
      ''  [Bot'' @ [CHR 0xF3] @ ''n: Pagar]'',
      ''  [Panel]'',
      ''    [Campo de Texto: Nombre]'',
      ''    [Campo de Texto: Correo]'']"
  by (simp add: pagar_tree_def indent_def numeral_eq_Suc)

text \<open>
  C2. For every tree of user-interface nodes held in the store, \<^verbatim>\<open>render(depth)\<close> prints
  the pre-order, depth-first, insertion-order listing of the tree: a leaf one line
  indented by \<open>depth\<close>, a panel its own line at \<open>depth\<close> and then each child at
  \<open>depth + 2\<close>. The instance of the claim, the root panel of the demonstration script
  rendered at depth 0, is the theorem that follows this one.
\<close>

theorem render_preorder:
  assumes "shape (store w) r t" and "height t < n"
  shows "\<exists>w'. render n r depth w = Inr w'
            \<and> stdout (trace w') = stdout (trace w) @ preorder t depth"
  using render_shape [OF assms, of depth] by blast

theorem render_preorder_witness:
  "\<exists>w. composite_demo initial = Inr (0, w)
      \<and> shape (store w) 0 pagar_tree \<and> height pagar_tree < 3
      \<and> (\<exists>w'. render 3 0 0 w = Inr w'
             \<and> stdout (trace w') =
                 [''[Panel]'',
                  ''  [Bot'' @ [CHR 0xF3] @ ''n: Pagar]'',
                  ''  [Panel]'',
                  ''    [Campo de Texto: Nombre]'',
                  ''    [Campo de Texto: Correo]''])"
proof -
  obtain w where w: "composite_demo initial = Inr (0, w)"
    and st: "store w = [0 \<mapsto> Panel [1, 2], 1 \<mapsto> Button ''Pagar'', 2 \<mapsto> Panel [3, 4],
                        3 \<mapsto> TextField ''Nombre'', 4 \<mapsto> TextField ''Correo'']"
    and tr: "stdout (trace w) = []"
    using composite_demo_initial by simp
  have sh: "shape (store w) 0 pagar_tree" unfolding st by (rule shape_demo)
  have h: "height pagar_tree < 3" by (simp add: height_demo)
  from render_preorder [OF sh h, of 0] w sh h tr show ?thesis
    by (simp add: preorder_demo)
qed

text \<open>
  C9. For every finite tree of user-interface nodes in which no node is its own
  descendant, \<^verbatim>\<open>render(depth)\<close> returns, for every depth and under every nesting bound
  above the height of the tree, and it prints exactly one line per node of the tree.
\<close>

theorem render_terminates_one_line_per_node:
  assumes "shape (store w) r t" and "height t < n"
  shows "\<exists>w'. render n r depth w = Inr w'
            \<and> length (stdout (trace w')) = length (stdout (trace w)) + nodes t"
  using render_shape [OF assms, of depth] by (auto simp: length_preorder)

theorem render_terminates_witness:
  "\<exists>w. composite_demo initial = Inr (0, w)
      \<and> shape (store w) 0 pagar_tree \<and> height pagar_tree < 7 \<and> nodes pagar_tree = 5
      \<and> (\<exists>w'. render 7 0 4 w = Inr w' \<and> length (stdout (trace w')) = 5)"
proof -
  obtain w where w: "composite_demo initial = Inr (0, w)"
    and st: "store w = [0 \<mapsto> Panel [1, 2], 1 \<mapsto> Button ''Pagar'', 2 \<mapsto> Panel [3, 4],
                        3 \<mapsto> TextField ''Nombre'', 4 \<mapsto> TextField ''Correo'']"
    and tr: "stdout (trace w) = []"
    using composite_demo_initial by simp
  have sh: "shape (store w) 0 pagar_tree" unfolding st by (rule shape_demo)
  have h: "height pagar_tree < 7" by (simp add: height_demo)
  from render_terminates_one_line_per_node [OF sh h, of 4] w sh h tr show ?thesis
    by (simp add: nodes_demo)
qed


section \<open>Construction\<close>

lemma add_stdout:
  "add self component w = Inr w' \<Longrightarrow> stdout (trace w') = stdout (trace w)"
  by (auto simp: add_def enter_def stdout_append split: option.splits UIComponent.splits)

lemma composite_demo_silent:
  "\<exists>r w'. composite_demo w = Inr (r, w') \<and> stdout (trace w') = stdout (trace w)"
  by (simp add: composite_demo_def init_defs add_def and_then_def enter_def stdout_append)

text \<open>
  C8. Constructing a component of any of the five groups prints nothing and enters no
  method: each constructor leaves the trace as it was. Building a panel's content with
  \<^verbatim>\<open>add\<close>, as the demonstration script does, prints nothing either.
\<close>

theorem construction_is_silent:
  "trace (snd (ExternalPaymentAPI_init w)) = trace w
   \<and> trace (snd (PaymentAdapter_init external_api w)) = trace w
   \<and> trace (snd (InvoiceGenerator_init w)) = trace w
   \<and> trace (snd (Database_init w)) = trace w
   \<and> trace (snd (MessageSender_init w)) = trace w
   \<and> trace (snd (BillingFacade_init w)) = trace w
   \<and> trace (snd (BasicMessage_init w)) = trace w
   \<and> trace (snd (EncryptionDecorator_init component w)) = trace w
   \<and> trace (snd (CompressionDecorator_init component w)) = trace w
   \<and> trace (snd (compression_then_encryption w)) = trace w
   \<and> trace (snd (encryption_then_compression w)) = trace w
   \<and> trace (snd (Button_init label w)) = trace w
   \<and> trace (snd (TextField_init name w)) = trace w
   \<and> trace (snd (Panel_init w)) = trace w
   \<and> (add self child w = Inr w' \<longrightarrow> stdout (trace w') = stdout (trace w))
   \<and> (\<exists>r w'. composite_demo w = Inr (r, w') \<and> stdout (trace w') = stdout (trace w))
   \<and> trace (snd (RealDatabase_init w)) = trace w
   \<and> trace (snd (DatabaseProxy_init user_type w)) = trace w"
  using add_stdout [of self child w w'] composite_demo_silent [of w]
  by (simp add: init_defs compression_then_encryption_def encryption_then_compression_def)

theorem construction_is_silent_witness:
  "\<exists>w'. add 0 1 (snd (Button_init ''Pagar'' (snd (Panel_init initial)))) = Inr w'
      \<and> stdout (trace w')
          = stdout (trace (snd (Button_init ''Pagar'' (snd (Panel_init initial)))))"
proof -
  obtain w' where
    a: "add 0 1 (snd (Button_init ''Pagar'' (snd (Panel_init initial)))) = Inr w'"
    by (simp add: add_def init_defs initial_def Let_def)
  with construction_is_silent
    [where w = "snd (Button_init ''Pagar'' (snd (Panel_init initial)))"
       and self = 0 and child = 1 and w' = w']
  show ?thesis by blast
qed


section \<open>Proxy: the store behind it\<close>

lemma DatabaseProxy_init_value:
  "DatabaseProxy_init user_type w =
     (DatabaseProxy (next_ref w) user_type (RealDatabase (Suc (next_ref w))),
      w\<lparr>next_ref := Suc (Suc (next_ref w))\<rparr>)"
  by (simp add: init_defs)

text \<open>No operation of the program takes an identity back: the allocator only grows.\<close>

lemma next_ref_send: "next_ref (send c message w) = next_ref w"
  by (induction c arbitrary: message w) (simp_all add: print_def enter_def)

lemma next_ref_send_payment: "next_ref (send_payment api amount w) = next_ref w"
  by (cases api) (simp add: print_def enter_def)

lemma next_ref_pay: "next_ref (pay a amount w) = next_ref w"
  by (cases a) (simp add: next_ref_send_payment next_ref_print next_ref_enter Let_def)

lemma next_ref_RealDatabase_read: "next_ref (RealDatabase_read db w) = next_ref w"
  by (cases db) (simp add: print_def enter_def)

lemma next_ref_RealDatabase_write: "next_ref (RealDatabase_write db w) = next_ref w"
  by (cases db) (simp add: print_def enter_def)

lemma next_ref_DatabaseProxy_read: "next_ref (DatabaseProxy_read p w) = next_ref w"
  by (cases p) (simp add: next_ref_RealDatabase_read next_ref_print next_ref_enter Let_def)

lemma next_ref_DatabaseProxy_write: "next_ref (DatabaseProxy_write p w) = next_ref w"
  by (cases p) (simp add: next_ref_RealDatabase_write next_ref_print next_ref_enter Let_def)

lemma next_ref_DatabaseProxy_init:
  "next_ref w < next_ref (snd (DatabaseProxy_init user_type w))"
  by (simp add: DatabaseProxy_init_value)

text \<open>
  C10. The constructor of the proxy takes the role and nothing else, and the real
  database of the proxy it returns has an identity that was unused before the call and
  is used after it. So for two proxies, the second constructed in any world later than
  the first one's construction, the two real databases differ; a read or write of one
  proxy enters its own real database (a read once, a write once for \<^verbatim>\<open>"admin"\<close> and not
  at all otherwise) and never the other proxy's.
\<close>

theorem proxy_owns_fresh_store:
  assumes "DatabaseProxy_init u1 w1 = (DatabaseProxy p1 r1 (RealDatabase d1), w1')"
      and "next_ref w1' \<le> next_ref w2"
      and "DatabaseProxy_init u2 w2 = (DatabaseProxy p2 r2 (RealDatabase d2), w2')"
  shows "next_ref w1 \<le> d1 \<and> d1 < next_ref w1' \<and> d1 \<noteq> d2
     \<and> calls_on d1 (trace (DatabaseProxy_read (DatabaseProxy p1 r1 (RealDatabase d1)) w))
         = calls_on d1 (trace w) @ [Read]
     \<and> calls_on d1 (trace (DatabaseProxy_write (DatabaseProxy p1 r1 (RealDatabase d1)) w))
         = calls_on d1 (trace w) @ (if r1 = ''admin'' then [Write] else [])
     \<and> calls_on d2 (trace (DatabaseProxy_read (DatabaseProxy p1 r1 (RealDatabase d1)) w))
         = calls_on d2 (trace w)
     \<and> calls_on d2 (trace (DatabaseProxy_write (DatabaseProxy p1 r1 (RealDatabase d1)) w))
         = calls_on d2 (trace w)
     \<and> calls_on d1 (trace (DatabaseProxy_read (DatabaseProxy p2 r2 (RealDatabase d2)) w))
         = calls_on d1 (trace w)
     \<and> calls_on d1 (trace (DatabaseProxy_write (DatabaseProxy p2 r2 (RealDatabase d2)) w))
         = calls_on d1 (trace w)"
proof -
  from assms(1) have 1: "p1 = next_ref w1" "d1 = Suc (next_ref w1)"
    "next_ref w1' = Suc (Suc (next_ref w1))"
    by (auto simp: DatabaseProxy_init_value)
  from assms(3) have 2: "p2 = next_ref w2" "d2 = Suc (next_ref w2)"
    by (auto simp: DatabaseProxy_init_value)
  from 1 2 assms(2) have ne: "p1 \<noteq> d1" "d1 \<noteq> d2" "p1 \<noteq> d2" "p2 \<noteq> d1"
    by auto
  with 1 show ?thesis
    by (simp add: print_def enter_def calls_on_append Let_def)
qed

theorem proxy_owns_fresh_store_witness:
  "DatabaseProxy_init ''invitado'' initial
     = (DatabaseProxy 0 ''invitado'' (RealDatabase 1), initial\<lparr>next_ref := 2\<rparr>)
   \<and> next_ref (initial\<lparr>next_ref := 2\<rparr>) \<le> next_ref (initial\<lparr>next_ref := 2\<rparr>)
   \<and> DatabaseProxy_init ''admin'' (initial\<lparr>next_ref := 2\<rparr>)
     = (DatabaseProxy 2 ''admin'' (RealDatabase 3), initial\<lparr>next_ref := 4\<rparr>)
   \<and> (1::nat) \<noteq> 3
   \<and> calls_on 1 (trace (DatabaseProxy_read (DatabaseProxy 0 ''invitado'' (RealDatabase 1))
        initial)) = [Read]
   \<and> calls_on 1 (trace (DatabaseProxy_write (DatabaseProxy 0 ''invitado'' (RealDatabase 1))
        initial)) = []
   \<and> calls_on 3 (trace (DatabaseProxy_write (DatabaseProxy 0 ''invitado'' (RealDatabase 1))
        initial)) = []
   \<and> calls_on 1 (trace (DatabaseProxy_write (DatabaseProxy 2 ''admin'' (RealDatabase 3))
        initial)) = []"
proof -
  have a: "DatabaseProxy_init ''invitado'' initial
     = (DatabaseProxy 0 ''invitado'' (RealDatabase 1), initial\<lparr>next_ref := 2\<rparr>)"
    by (simp add: DatabaseProxy_init_value initial_def)
  have b: "next_ref (initial\<lparr>next_ref := 2\<rparr>) \<le> next_ref (initial\<lparr>next_ref := 2\<rparr>)"
    by simp
  have c: "DatabaseProxy_init ''admin'' (initial\<lparr>next_ref := 2\<rparr>)
     = (DatabaseProxy 2 ''admin'' (RealDatabase 3), initial\<lparr>next_ref := 4\<rparr>)"
    by (simp add: DatabaseProxy_init_value initial_def)
  have t: "trace initial = []" by (simp add: initial_def)
  from proxy_owns_fresh_store [OF a b c, of initial] a b c show ?thesis
    by (simp add: t)
qed

end
